theory Spec2Isabelle
  imports Complex_Main "HOL-Library.Sublist" "HOL-Library.Word"
begin

section \<open>Constants (const.py)\<close>

definition TIMEOUT_RECENTLY_BRUSHING :: real where
  "TIMEOUT_RECENTLY_BRUSHING = 30"

definition NOT_BRUSHING_UPDATE_INTERVAL_SECONDS :: real where
  "NOT_BRUSHING_UPDATE_INTERVAL_SECONDS = 20"

definition BRUSHING_UPDATE_INTERVAL_SECONDS :: real where
  "BRUSHING_UPDATE_INTERVAL_SECONDS = 10"

definition SONICARE_ADVERTISMENT_UUID :: string where
  "SONICARE_ADVERTISMENT_UUID = ''477ea600-a260-11e4-ae37-0002a5d50001''"

definition CHARACTERISTIC_BATTERY :: string where
  "CHARACTERISTIC_BATTERY = ''00002a19-0000-1000-8000-00805f9b34fb''"

definition CHARACTERISTIC_BRUSHING_TIME :: string where
  "CHARACTERISTIC_BRUSHING_TIME = ''477ea600-a260-11e4-ae37-0002a5d54090''"

definition CHARACTERISTIC_STATE :: string where
  "CHARACTERISTIC_STATE = ''477ea600-a260-11e4-ae37-0002a5d54010''"

definition CHARACTERISTIC_CURRENT_TIME :: string where
  "CHARACTERISTIC_CURRENT_TIME = ''477ea600-a260-11e4-ae37-0002a5d54050''"

definition CHARACTERISTIC_MODE :: string where
  "CHARACTERISTIC_MODE = ''477ea600-a260-11e4-ae37-0002a5d54091''"

definition CHARACTERISTIC_STRENGTH :: string where
  "CHARACTERISTIC_STRENGTH = ''477ea600-a260-11e4-ae37-0002a5d540b0''"

definition CHARACTERISTIC_BRUSH_USAGE :: string where
  "CHARACTERISTIC_BRUSH_USAGE = ''477ea600-a260-11e4-ae37-0002a5d54290''"

definition CHARACTERISTIC_BRUSH_LIFETIME :: string where
  "CHARACTERISTIC_BRUSH_LIFETIME = ''477ea600-a260-11e4-ae37-0002a5d54280''"

section \<open>Model registry (parser.py, lines 55 to 112)\<close>

datatype Models = HX6340 | HX992X | HX9990

record ModelDescription =
  device_type :: string
  modes :: "int \<rightharpoonup> string"

text \<open>Python's \<^verbatim>\<open>d1 | d2\<close> on dictionaries is the right-biased union, \<open>d1 ++ d2\<close> on maps.\<close>

definition KIDS_MODES :: "int \<rightharpoonup> string" where
  "KIDS_MODES = [0 \<mapsto> ''none'']"

definition EXPERT_CLEAN_MODES :: "int \<rightharpoonup> string" where
  "EXPERT_CLEAN_MODES = [120 \<mapsto> ''clean'', 200 \<mapsto> ''gun health'', 180 \<mapsto> ''deep clean+'']"

definition DIAMOND_CLEAN_MODES :: "int \<rightharpoonup> string" where
  "DIAMOND_CLEAN_MODES = EXPERT_CLEAN_MODES ++ [160 \<mapsto> ''white+'']"

definition PRESTIGE_MODES :: "int \<rightharpoonup> string" where
  "PRESTIGE_MODES = DIAMOND_CLEAN_MODES ++ [210 \<mapsto> ''sensitive'']"

fun DEVICE_TYPES :: "Models \<Rightarrow> ModelDescription" where
  "DEVICE_TYPES HX6340 = \<lparr>device_type = ''HX6340'', modes = KIDS_MODES\<rparr>"
| "DEVICE_TYPES HX992X = \<lparr>device_type = ''HX992X'', modes = DIAMOND_CLEAN_MODES\<rparr>"
| "DEVICE_TYPES HX9990 = \<lparr>device_type = ''HX9990'', modes = PRESTIGE_MODES\<rparr>"

definition STRENGTH :: "int \<rightharpoonup> string" where
  "STRENGTH = [0 \<mapsto> ''low'', 1 \<mapsto> ''medium'', 2 \<mapsto> ''high'']"

definition STATES :: "int \<rightharpoonup> string" where
  "STATES = [0 \<mapsto> ''off'', 1 \<mapsto> ''standby'', 2 \<mapsto> ''run'', 3 \<mapsto> ''charge'',
             4 \<mapsto> ''shutdown'', 6 \<mapsto> ''validate'', 7 \<mapsto> ''lightsout'']"

section \<open>Data of one device session\<close>

type_synonym bytes = "8 word list"

text \<open>
  The value handed to \<^verbatim>\<open>update_sensor\<close>: an integer, a string, or a raw byte payload.
\<close>

datatype native_value = IntValue int | StrValue string | BytesValue bytes

record sensor_entry =
  native_unit_of_measurement :: "string option"
  sensor_native_value :: native_value
  sensor_device_class :: "string option"
  sensor_name :: string

text \<open>
  \<^verbatim>\<open>SonicareBluetoothDeviceData\<close>: the two fields of \<^verbatim>\<open>__init__\<close> (\<^verbatim>\<open>_brushing\<close>,
  \<^verbatim>\<open>_last_brush\<close>) and the fields of the base class that the setters
  \<^verbatim>\<open>set_device_manufacturer\<close>, \<^verbatim>\<open>set_device_type\<close>, \<^verbatim>\<open>set_device_name\<close>, \<^verbatim>\<open>set_title\<close>
  and \<^verbatim>\<open>update_sensor\<close> write.
\<close>

record device_data =
  brushing :: bool
  last_brush :: real
  dev_manufacturer :: "string option"
  dev_type :: "string option"
  dev_name :: "string option"
  title :: "string option"
  sensors :: "string \<rightharpoonup> sensor_entry"

definition init_data :: device_data where
  "init_data = \<lparr>brushing = False, last_brush = 0, dev_manufacturer = None, dev_type = None,
                 dev_name = None, title = None, sensors = Map.empty\<rparr>"

record BluetoothServiceInfo =
  address :: string
  service_uuids :: "string list"
  manufacturer_data :: "int \<rightharpoonup> bytes"

section \<open>Poll scheduler (parser.py, poll\_needed)\<close>

text \<open>
  \<open>now\<close> is the value \<^verbatim>\<open>time.monotonic()\<close> returns during the call; \<open>last_poll\<close> is
  the time since the last poll, \<open>None\<close> when there was none.
\<close>

definition poll_needed :: "device_data \<Rightarrow> real \<Rightarrow> BluetoothServiceInfo \<Rightarrow> real option \<Rightarrow> bool" where
  "poll_needed self now service_info last_poll =
     (case last_poll of
        None \<Rightarrow> True
      | Some lp \<Rightarrow>
          (let update_interval = NOT_BRUSHING_UPDATE_INTERVAL_SECONDS;
               update_interval =
                 (if brushing self \<or> now - last_brush self \<le> TIMEOUT_RECENTLY_BRUSHING
                  then BRUSHING_UPDATE_INTERVAL_SECONDS else update_interval)
           in lp > update_interval))"

section \<open>Advertisement classifier (parser.py, \_start\_update)\<close>

text \<open>
  The setters of the base class store their argument. Python's \<^verbatim>\<open>a in b\<close> on strings
  is the substring test, \<^const>\<open>sublist\<close> on character lists.
\<close>

definition set_device_manufacturer :: "string \<Rightarrow> device_data \<Rightarrow> device_data" where
  "set_device_manufacturer m self = self\<lparr>dev_manufacturer := Some m\<rparr>"

definition set_device_type :: "string \<Rightarrow> device_data \<Rightarrow> device_data" where
  "set_device_type t self = self\<lparr>dev_type := Some t\<rparr>"

definition set_device_name :: "string \<Rightarrow> device_data \<Rightarrow> device_data" where
  "set_device_name n self = self\<lparr>dev_name := Some n\<rparr>"

definition set_title :: "string \<Rightarrow> device_data \<Rightarrow> device_data" where
  "set_title n self = self\<lparr>title := Some n\<rparr>"

text \<open>The loop of lines 144 to 150, with \<^verbatim>\<open>correct_device\<close> as the accumulator.\<close>

fun scan_uuids :: "string list \<Rightarrow> bool \<Rightarrow> bool" where
  "scan_uuids [] correct_device = correct_device"
| "scan_uuids (service_uuid # rest) correct_device =
     scan_uuids rest
       (if sublist SONICARE_ADVERTISMENT_UUID service_uuid then True else correct_device)"

text \<open>
  \<^verbatim>\<open>short_address\<close> is imported from another package and is a parameter here. The
  method returns \<^verbatim>\<open>None\<close> on every path; what it does is the update of the object.
\<close>

definition start_update ::
  "(string \<Rightarrow> string) \<Rightarrow> BluetoothServiceInfo \<Rightarrow> device_data \<Rightarrow> device_data" where
  "start_update short_address service_info self =
     (let correct_device = scan_uuids (service_uuids service_info) False
      in if \<not> correct_device then self
         else
           (let self = set_device_manufacturer ''Philips Sonicare'' self;
                model = HX992X;
                model_info = DEVICE_TYPES model;
                self = set_device_type (device_type model_info) self;
                name = device_type model_info @ '' '' @ short_address (address service_info);
                self = set_device_name name self
            in set_title name self))"

section \<open>Characteristic decoder (parser.py, async\_poll)\<close>

datatype error =
    CharacteristicNotFound string
  | IndexError
  | AttributeError string
  | OverflowError

definition bind_err :: "error + 'a \<Rightarrow> ('a \<Rightarrow> error + 'b) \<Rightarrow> error + 'b" where
  "bind_err m f = (case m of Inl e \<Rightarrow> Inl e | Inr x \<Rightarrow> f x)"

text \<open>
  The connected client is the map from a characteristic's UUID to the payload a read of
  it returns. For a UUID the device does not have, \<^verbatim>\<open>get_characteristic\<close> returns
  \<^verbatim>\<open>None\<close> and \<^verbatim>\<open>read_gatt_char\<close> raises.
\<close>

definition read_gatt_char :: "(string \<rightharpoonup> bytes) \<Rightarrow> string \<Rightarrow> error + bytes" where
  "read_gatt_char client uuid =
     (case client uuid of None \<Rightarrow> Inl (CharacteristicNotFound uuid) | Some payload \<Rightarrow> Inr payload)"

text \<open>\<^verbatim>\<open>payload[0]\<close>: the first byte as an integer, IndexError on an empty payload.\<close>

definition first_byte :: "bytes \<Rightarrow> error + int" where
  "first_byte payload = (case payload of [] \<Rightarrow> Inl IndexError | b # _ \<Rightarrow> Inr (uint b))"

text \<open>\<^verbatim>\<open>int.from_bytes(payload, "little")\<close>.\<close>

fun from_bytes_little :: "bytes \<Rightarrow> int" where
  "from_bytes_little [] = 0"
| "from_bytes_little (b # bs) = uint b + 256 * from_bytes_little bs"

text \<open>
  \<^verbatim>\<open>int.from_byte(payload, "little")\<close>: the type \<^verbatim>\<open>int\<close> has no attribute of that name,
  so the expression raises AttributeError whatever the payload.
\<close>

definition from_byte :: "bytes \<Rightarrow> error + int" where
  "from_byte payload = Inl (AttributeError ''from_byte'')"

text \<open>The decimal rendering of an integer, as an f-string gives it.\<close>

definition digit_char :: "nat \<Rightarrow> char" where
  "digit_char d = ''0123456789'' ! d"

fun str_nat :: "nat \<Rightarrow> string" where
  "str_nat n = (if n < 10 then [digit_char n] else str_nat (n div 10) @ [digit_char (n mod 10)])"

definition str_int :: "int \<Rightarrow> string" where
  "str_int i = (if i < 0 then CHR ''-'' # str_nat (nat (- i)) else str_nat (nat i))"

declare str_nat.simps [simp del]



text \<open>Line 236: \<^verbatim>\<open>STATES.get(state_payload[0], f"unknown state {state_payload[0]}")\<close>.\<close>

definition resolve_state :: "bytes \<Rightarrow> error + string" where
  "resolve_state state_payload =
     bind_err (first_byte state_payload) (\<lambda>code.
       Inr (case STATES code of Some label \<Rightarrow> label
            | None \<Rightarrow> ''unknown state '' @ str_int code))"

text \<open>What the \<^verbatim>\<open>try\<close> block of lines 213 to 243 binds.\<close>

record poll_reads =
  brush_usage_payload :: bytes
  brush_lifetime_payload :: bytes
  mode_payload :: bytes
  strength_payload :: bytes
  battery_payload :: bytes
  brushing_time_payload :: bytes
  state_payload :: bytes
  tb_state :: string
  current_time_stamp :: string

text \<open>
  \<open>strftime_localtime\<close> stands for
  \<^verbatim>\<open>time.strftime('%Y-%m-%d %H:%M:%S', time.localtime(epoch))\<close>, which depends on
  the host's time zone and raises for an epoch the platform cannot represent
  (\<open>None\<close>). The \<^verbatim>\<open>finally\<close> clause logs and disconnects, then lets the exception
  through; it changes nothing of the object.
\<close>

definition read_all :: "(int \<Rightarrow> string option) \<Rightarrow> (string \<rightharpoonup> bytes) \<Rightarrow> error + poll_reads" where
  "read_all strftime_localtime client =
     bind_err (read_gatt_char client CHARACTERISTIC_BRUSH_USAGE) (\<lambda>brush_usage.
     bind_err (read_gatt_char client CHARACTERISTIC_BRUSH_LIFETIME) (\<lambda>brush_lifetime.
     bind_err (read_gatt_char client CHARACTERISTIC_MODE) (\<lambda>mode.
     bind_err (read_gatt_char client CHARACTERISTIC_STRENGTH) (\<lambda>strength.
     bind_err (read_gatt_char client CHARACTERISTIC_BATTERY) (\<lambda>battery.
     bind_err (read_gatt_char client CHARACTERISTIC_BRUSHING_TIME) (\<lambda>brushing_time.
     bind_err (read_gatt_char client CHARACTERISTIC_STATE) (\<lambda>state.
     bind_err (resolve_state state) (\<lambda>label.
     bind_err (read_gatt_char client CHARACTERISTIC_CURRENT_TIME) (\<lambda>current_time.
       (let current_time_epoch = from_bytes_little current_time
        in case strftime_localtime current_time_epoch of
             None \<Rightarrow> Inl OverflowError
           | Some stamp \<Rightarrow>
               Inr \<lparr>brush_usage_payload = brush_usage, brush_lifetime_payload = brush_lifetime,
                    mode_payload = mode, strength_payload = strength,
                    battery_payload = battery, brushing_time_payload = brushing_time,
                    state_payload = state, tb_state = label,
                    current_time_stamp = stamp\<rparr>))))))))))"

definition update_sensor ::
  "string \<Rightarrow> string option \<Rightarrow> native_value \<Rightarrow> string option \<Rightarrow> string \<Rightarrow> device_data \<Rightarrow> device_data" where
  "update_sensor key u v device_class name self =
     self\<lparr>sensors := (sensors self)(key \<mapsto>
       \<lparr>native_unit_of_measurement = u, sensor_native_value = v,
        sensor_device_class = device_class, sensor_name = name\<rparr>)\<rparr>"

text \<open>\<^verbatim>\<open>_finish_update\<close> of the base class hands out the sensor values collected so far.\<close>

definition finish_update :: "device_data \<Rightarrow> (string \<rightharpoonup> sensor_entry)" where
  "finish_update self = sensors self"

text \<open>
  The statements after the \<^verbatim>\<open>finally\<close> clause, in three parts: lines 294 to 309 (mode,
  strength, return), lines 286 to 292 (brush head usage), lines 247 to 284 (the first five
  sensors). An exception leaves the object as the updates before it made it.
\<close>

definition update_mode_strength ::
  "poll_reads \<Rightarrow> device_data \<Rightarrow> (error + (string \<rightharpoonup> sensor_entry)) \<times> device_data" where
  "update_mode_strength r self =
     (let self = update_sensor ''mode'' None (BytesValue (mode_payload r)) None
                   ''Toothbrush current mode'' self
      in case from_byte (strength_payload r) of
           Inl e \<Rightarrow> (Inl e, self)
         | Inr strength \<Rightarrow>
             (let self = update_sensor ''brush_strength'' None (IntValue strength) None
                           ''Toothbrush current strength'' self
              in (Inr (finish_update self), self)))"

definition update_usage ::
  "poll_reads \<Rightarrow> device_data \<Rightarrow> (error + (string \<rightharpoonup> sensor_entry)) \<times> device_data" where
  "update_usage r self =
     (case from_byte (brush_usage_payload r) of
        Inl e \<Rightarrow> (Inl e, self)
      | Inr usage \<Rightarrow>
          update_mode_strength r
            (update_sensor ''brush_head_usage'' None (IntValue usage) None
               ''Toothbrush head usage'' self))"

definition update_sensors ::
  "poll_reads \<Rightarrow> device_data \<Rightarrow> (error + (string \<rightharpoonup> sensor_entry)) \<times> device_data" where
  "update_sensors r self =
     (let self = update_sensor ''brushing_time'' None
                   (IntValue (from_bytes_little (brushing_time_payload r))) None
                   ''Brushing time'' self
      in case first_byte (battery_payload r) of
           Inl e \<Rightarrow> (Inl e, self)
         | Inr battery \<Rightarrow>
             (let self = update_sensor ''battery_percent'' (Some ''%'') (IntValue battery)
                           (Some ''battery'') ''Battery'' self;
                  self = update_sensor ''toothbrush_state'' None (StrValue (tb_state r)) None
                           ''Toothbrush State'' self;
                  self = update_sensor ''current_time'' None (StrValue (current_time_stamp r))
                           None ''Toothbrush current time'' self;
                  self = update_sensor ''brush_head_lifetime'' None
                           (IntValue (from_bytes_little (brush_lifetime_payload r))) None
                           ''Toothbrush head total lifetime'' self
              in update_usage r self))"

definition async_poll ::
  "(int \<Rightarrow> string option) \<Rightarrow> (string \<rightharpoonup> bytes) \<Rightarrow> device_data
     \<Rightarrow> (error + (string \<rightharpoonup> sensor_entry)) \<times> device_data" where
  "async_poll strftime_localtime client self =
     (case read_all strftime_localtime client of
        Inl e \<Rightarrow> (Inl e, self)
      | Inr r \<Rightarrow> update_sensors r self)"

text \<open>The eight characteristics the decoder reads, in the order it reads them.\<close>

definition REQUIRED :: "string list" where
  "REQUIRED = [CHARACTERISTIC_BRUSH_USAGE, CHARACTERISTIC_BRUSH_LIFETIME, CHARACTERISTIC_MODE,
               CHARACTERISTIC_STRENGTH, CHARACTERISTIC_BATTERY, CHARACTERISTIC_BRUSHING_TIME,
               CHARACTERISTIC_STATE, CHARACTERISTIC_CURRENT_TIME]"

section \<open>Example inputs\<close>

text \<open>
  Concrete values of the parameters and inputs, for the evaluations below: a clock that
  formats every epoch alike, a shortening of a colon-separated address to its last two
  octets, two advertisements, and the payloads of a device, whole and with one payload
  empty or absent.
\<close>

definition example_localtime :: "int \<Rightarrow> string option" where
  "example_localtime epoch = Some ''1970-01-01 00:00:00''"

definition example_short_address :: "string \<Rightarrow> string" where
  "example_short_address a = take 2 (drop (length a - 5) a) @ drop (length a - 2) a"

definition other_advertisement :: BluetoothServiceInfo where
  "other_advertisement =
     \<lparr>address = ''AA:BB:CC:DD:EE:FF'',
      service_uuids = [''0000180f-0000-1000-8000-00805f9b34fb''],
      manufacturer_data = Map.empty\<rparr>"

definition sonicare_advertisement :: BluetoothServiceInfo where
  "sonicare_advertisement =
     \<lparr>address = ''AA:BB:CC:DD:EE:FF'',
      service_uuids = [''0000180f-0000-1000-8000-00805f9b34fb'',
                       ''477ea600-a260-11e4-ae37-0002a5d50001''],
      manufacturer_data = Map.empty\<rparr>"

definition example_client :: "string \<rightharpoonup> bytes" where
  "example_client =
     [CHARACTERISTIC_BRUSH_USAGE \<mapsto> [16, 14], CHARACTERISTIC_BRUSH_LIFETIME \<mapsto> [64, 56],
      CHARACTERISTIC_MODE \<mapsto> [120], CHARACTERISTIC_STRENGTH \<mapsto> [1],
      CHARACTERISTIC_BATTERY \<mapsto> [87], CHARACTERISTIC_BRUSHING_TIME \<mapsto> [120, 0],
      CHARACTERISTIC_STATE \<mapsto> [2], CHARACTERISTIC_CURRENT_TIME \<mapsto> [0, 0, 0, 0]]"

definition empty_state_client :: "string \<rightharpoonup> bytes" where
  "empty_state_client = example_client(CHARACTERISTIC_STATE \<mapsto> [])"

definition no_time_client :: "string \<rightharpoonup> bytes" where
  "no_time_client = empty_state_client(CHARACTERISTIC_CURRENT_TIME := None)"

definition no_battery_client :: "string \<rightharpoonup> bytes" where
  "no_battery_client = example_client(CHARACTERISTIC_BATTERY := None)"


section \<open>Auxiliary facts\<close>

lemmas uuid_defs = CHARACTERISTIC_BATTERY_def CHARACTERISTIC_BRUSHING_TIME_def
  CHARACTERISTIC_STATE_def CHARACTERISTIC_CURRENT_TIME_def CHARACTERISTIC_MODE_def
  CHARACTERISTIC_STRENGTH_def CHARACTERISTIC_BRUSH_USAGE_def CHARACTERISTIC_BRUSH_LIFETIME_def

lemma uuid_distinct:
  "CHARACTERISTIC_BRUSH_USAGE \<noteq> CHARACTERISTIC_CURRENT_TIME"
  "CHARACTERISTIC_BRUSH_LIFETIME \<noteq> CHARACTERISTIC_CURRENT_TIME"
  "CHARACTERISTIC_MODE \<noteq> CHARACTERISTIC_CURRENT_TIME"
  "CHARACTERISTIC_STRENGTH \<noteq> CHARACTERISTIC_CURRENT_TIME"
  "CHARACTERISTIC_BATTERY \<noteq> CHARACTERISTIC_CURRENT_TIME"
  "CHARACTERISTIC_BRUSHING_TIME \<noteq> CHARACTERISTIC_CURRENT_TIME"
  "CHARACTERISTIC_STATE \<noteq> CHARACTERISTIC_CURRENT_TIME"
  by (simp_all add: uuid_defs)

lemma scan_uuids_eq:
  "scan_uuids us acc = (acc \<or> (\<exists>u \<in> set us. sublist SONICARE_ADVERTISMENT_UUID u))"
  by (induction us arbitrary: acc) auto

lemma update_sensors_fails: "\<exists>e. fst (update_sensors r self) = Inl e"
  by (simp add: update_sensors_def update_usage_def from_byte_def Let_def split: sum.splits)

lemma async_poll_fails: "\<exists>e. fst (async_poll lt client self) = Inl e"
  using update_sensors_fails by (simp add: async_poll_def split: sum.splits)

lemma update_sensor_keeps [simp]:
  "brushing (update_sensor k u v c n self) = brushing self"
  "last_brush (update_sensor k u v c n self) = last_brush self"
  by (simp_all add: update_sensor_def)

lemma update_sensors_keeps:
  "brushing (snd (update_sensors r self)) = brushing self
   \<and> last_brush (snd (update_sensors r self)) = last_brush self"
  by (simp add: update_sensors_def update_usage_def from_byte_def Let_def split: sum.splits)

lemma async_poll_keeps:
  "brushing (snd (async_poll lt client self)) = brushing self
   \<and> last_brush (snd (async_poll lt client self)) = last_brush self"
  using update_sensors_keeps by (simp add: async_poll_def split: sum.splits)

lemma read_all_InrD:
  assumes "read_all lt client = Inr r"
  shows "client CHARACTERISTIC_BRUSH_USAGE = Some (brush_usage_payload r)
       \<and> client CHARACTERISTIC_BRUSH_LIFETIME = Some (brush_lifetime_payload r)
       \<and> client CHARACTERISTIC_MODE = Some (mode_payload r)
       \<and> client CHARACTERISTIC_STRENGTH = Some (strength_payload r)
       \<and> client CHARACTERISTIC_BATTERY = Some (battery_payload r)
       \<and> client CHARACTERISTIC_BRUSHING_TIME = Some (brushing_time_payload r)
       \<and> client CHARACTERISTIC_STATE = Some (state_payload r)
       \<and> resolve_state (state_payload r) = Inr (tb_state r)"
  using assms
  by (auto simp: read_all_def bind_err_def read_gatt_char_def Let_def
      split: option.splits sum.splits)

lemma update_sensors_state_label:
  assumes "fst (update_sensors r self) = Inl (AttributeError a)"
  shows "sensors (snd (update_sensors r self)) ''toothbrush_state''
         = Some \<lparr>native_unit_of_measurement = None, sensor_native_value = StrValue (tb_state r),
                  sensor_device_class = None, sensor_name = ''Toothbrush State''\<rparr>"
  using assms
  by (auto simp: update_sensors_def update_usage_def from_byte_def first_byte_def Let_def
      update_sensor_def split: sum.splits list.splits)

lemma async_poll_state_label:
  assumes "fst (async_poll lt client self) = Inl (AttributeError a)"
      and "client CHARACTERISTIC_STATE = Some payload"
  shows "\<exists>label. resolve_state payload = Inr label
         \<and> sensors (snd (async_poll lt client self)) ''toothbrush_state''
             = Some \<lparr>native_unit_of_measurement = None, sensor_native_value = StrValue label,
                      sensor_device_class = None, sensor_name = ''Toothbrush State''\<rparr>"
proof (cases "read_all lt client")
  case (Inl e)
  with assms(1) have "read_all lt client = Inl (AttributeError a)"
    by (simp add: async_poll_def)
  then show ?thesis
    by (auto simp: read_all_def bind_err_def read_gatt_char_def resolve_state_def
        first_byte_def Let_def split: option.splits sum.splits list.splits)
next
  case (Inr r)
  from read_all_InrD [OF Inr] assms(2)
  have st: "resolve_state payload = Inr (tb_state r)" by simp
  from Inr assms(1) have "fst (update_sensors r self) = Inl (AttributeError a)"
    by (simp add: async_poll_def)
  from update_sensors_state_label [OF this] Inr st show ?thesis
    by (simp add: async_poll_def)
qed








lemma async_poll_other_keys:
  assumes "k \<notin> {''brushing_time'', ''battery_percent'', ''toothbrush_state'', ''current_time'',
                 ''brush_head_lifetime''}"
  shows "sensors (snd (async_poll lt client self)) k = sensors self k"
  using assms
  by (auto simp: async_poll_def update_sensors_def update_usage_def from_byte_def
      update_sensor_def Let_def split: sum.splits)


lemma example_client_simps:
  "example_client CHARACTERISTIC_BRUSH_USAGE = Some [16, 14]"
  "example_client CHARACTERISTIC_BRUSH_LIFETIME = Some [64, 56]"
  "example_client CHARACTERISTIC_MODE = Some [120]"
  "example_client CHARACTERISTIC_STRENGTH = Some [1]"
  "example_client CHARACTERISTIC_BATTERY = Some [87]"
  "example_client CHARACTERISTIC_BRUSHING_TIME = Some [120, 0]"
  "example_client CHARACTERISTIC_STATE = Some [2]"
  "example_client CHARACTERISTIC_CURRENT_TIME = Some [0, 0, 0, 0]"
  by (simp_all add: example_client_def uuid_defs)

lemma example_poll:
  "async_poll example_localtime example_client init_data
   = (Inl (AttributeError ''from_byte''),
      init_data\<lparr>sensors :=
        [''brushing_time'' \<mapsto>
           \<lparr>native_unit_of_measurement = None, sensor_native_value = IntValue 120,
            sensor_device_class = None, sensor_name = ''Brushing time''\<rparr>,
         ''battery_percent'' \<mapsto>
           \<lparr>native_unit_of_measurement = Some ''%'', sensor_native_value = IntValue 87,
            sensor_device_class = Some ''battery'', sensor_name = ''Battery''\<rparr>,
         ''toothbrush_state'' \<mapsto>
           \<lparr>native_unit_of_measurement = None, sensor_native_value = StrValue ''run'',
            sensor_device_class = None, sensor_name = ''Toothbrush State''\<rparr>,
         ''current_time'' \<mapsto>
           \<lparr>native_unit_of_measurement = None,
            sensor_native_value = StrValue ''1970-01-01 00:00:00'',
            sensor_device_class = None, sensor_name = ''Toothbrush current time''\<rparr>,
         ''brush_head_lifetime'' \<mapsto>
           \<lparr>native_unit_of_measurement = None, sensor_native_value = IntValue 14400,
            sensor_device_class = None, sensor_name = ''Toothbrush head total lifetime''\<rparr>]\<rparr>)"
  by (simp add: async_poll_def read_all_def bind_err_def read_gatt_char_def example_client_simps
      resolve_state_def first_byte_def STATES_def example_localtime_def update_sensors_def
      update_usage_def from_byte_def update_sensor_def Let_def init_data_def)

section \<open>The mode tables\<close>

text \<open>
  C10. The prestige table, the diamond clean table extended, itself the expert clean
  table extended, maps 200 to "gun health", and every entry of the expert clean table is
  an entry of the diamond clean table and of the prestige table, every entry of the
  diamond clean table an entry of the prestige table.
\<close>

theorem prestige_inherits_base:
  "PRESTIGE_MODES 200 = Some ''gun health''
   \<and> (EXPERT_CLEAN_MODES k = Some v \<longrightarrow> DIAMOND_CLEAN_MODES k = Some v \<and> PRESTIGE_MODES k = Some v)
   \<and> (DIAMOND_CLEAN_MODES k = Some v \<longrightarrow> PRESTIGE_MODES k = Some v)"
  by (simp add: PRESTIGE_MODES_def DIAMOND_CLEAN_MODES_def EXPERT_CLEAN_MODES_def map_add_def)

theorem prestige_inherits_base_witness:
  "EXPERT_CLEAN_MODES 120 = Some ''clean'' \<and> DIAMOND_CLEAN_MODES 120 = Some ''clean''
   \<and> PRESTIGE_MODES 120 = Some ''clean'' \<and> PRESTIGE_MODES 200 = Some ''gun health''"
proof -
  have base: "EXPERT_CLEAN_MODES 120 = Some ''clean''"
    by (simp add: EXPERT_CLEAN_MODES_def)
  have diamond: "DIAMOND_CLEAN_MODES 120 = Some ''clean''"
    using prestige_inherits_base [of 120 "''clean''"] base by blast
  show ?thesis
    using prestige_inherits_base [of 120 "''clean''"] base diamond by blast
qed

section \<open>The poll scheduler\<close>

text \<open>
  C1. With no previous poll the scheduler answers true; otherwise the interval is 10 when
  the brushing flag is set or the time since the last brushing is at most 30, and 20
  otherwise, and the answer is true exactly when the elapsed time is strictly greater
  than the interval.
\<close>

theorem poll_needed_rule:
  "poll_needed self now service_info None = True
   \<and> poll_needed self now service_info (Some elapsed)
       = (elapsed > (if brushing self \<or> now - last_brush self \<le> 30 then 10 else 20))"
  by (simp add: poll_needed_def Let_def TIMEOUT_RECENTLY_BRUSHING_def
      NOT_BRUSHING_UPDATE_INTERVAL_SECONDS_def BRUSHING_UPDATE_INTERVAL_SECONDS_def)

text \<open>
  C9, as the specification states it, fails: with the brushing flag false and the last
  brushing 25 units ago, the interval is 10, and an elapsed time of 15 exceeds it.
\<close>

theorem poll_needed_grace_15_counterexample:
  "\<not> (poll_needed init_data 25 \<lparr>address = [], service_uuids = [], manufacturer_data = Map.empty\<rparr>
         (Some 15) = False
       \<and> poll_needed init_data 25 \<lparr>address = [], service_uuids = [], manufacturer_data = Map.empty\<rparr>
         (Some 31) = True)"
  by (simp add: poll_needed_def init_data_def Let_def TIMEOUT_RECENTLY_BRUSHING_def
      NOT_BRUSHING_UPDATE_INTERVAL_SECONDS_def BRUSHING_UPDATE_INTERVAL_SECONDS_def)

text \<open>
  C9, amended. With the brushing flag false and the last brushing 25 units ago, the
  interval is 10: the scheduler answers true exactly when the elapsed time is greater than
  10, so it answers true for an elapsed time of 15 and true for an elapsed time of 31.
\<close>

theorem poll_needed_grace:
  assumes "brushing self = False" and "now - last_brush self = 25"
  shows "poll_needed self now service_info (Some elapsed) = (elapsed > 10)
         \<and> poll_needed self now service_info (Some 15) = True
         \<and> poll_needed self now service_info (Some 31) = True"
  using assms
  by (simp add: poll_needed_def Let_def TIMEOUT_RECENTLY_BRUSHING_def
      NOT_BRUSHING_UPDATE_INTERVAL_SECONDS_def BRUSHING_UPDATE_INTERVAL_SECONDS_def)

text \<open>
  The witness of C9, amended: the initial object at time 25, where an elapsed time of 10
  is not yet enough and one of 15 is.
\<close>

theorem poll_needed_grace_witness:
  "brushing init_data = False \<and> 25 - last_brush init_data = 25
   \<and> poll_needed init_data 25 \<lparr>address = [], service_uuids = [], manufacturer_data = Map.empty\<rparr>
       (Some 10) = False
   \<and> poll_needed init_data 25 \<lparr>address = [], service_uuids = [], manufacturer_data = Map.empty\<rparr>
       (Some 15) = True
   \<and> poll_needed init_data 25 \<lparr>address = [], service_uuids = [], manufacturer_data = Map.empty\<rparr>
       (Some 31) = True"
proof -
  have b: "brushing init_data = False" by (simp add: init_data_def)
  have t: "25 - last_brush init_data = 25" by (simp add: init_data_def)
  show ?thesis
    using b t poll_needed_grace [OF b t, where elapsed = 10] by simp
qed

section \<open>The advertisement classifier\<close>

text \<open>
  C2. When no advertised service identifier has the advertisement UUID as a substring,
  the classifier leaves the object as it was: no manufacturer, type, name or title is set.
\<close>

theorem start_update_ignores:
  assumes "\<forall>u \<in> set (service_uuids service_info). \<not> sublist SONICARE_ADVERTISMENT_UUID u"
  shows "start_update short_address service_info self = self"
  using assms by (simp add: start_update_def scan_uuids_eq)

text \<open>
  The witness of C2: an advertisement of a battery service only.
\<close>

theorem start_update_ignores_witness:
  "service_uuids other_advertisement = [''0000180f-0000-1000-8000-00805f9b34fb'']
   \<and> \<not> sublist SONICARE_ADVERTISMENT_UUID ''0000180f-0000-1000-8000-00805f9b34fb''
   \<and> start_update example_short_address other_advertisement init_data = init_data"
proof -
  have n: "\<not> sublist SONICARE_ADVERTISMENT_UUID ''0000180f-0000-1000-8000-00805f9b34fb''"
    by code_simp
  have u: "service_uuids other_advertisement = [''0000180f-0000-1000-8000-00805f9b34fb'']"
    by (simp add: other_advertisement_def)
  from n u have h: "\<forall>u \<in> set (service_uuids other_advertisement).
      \<not> sublist SONICARE_ADVERTISMENT_UUID u"
    by simp
  show ?thesis
    using n u start_update_ignores [OF h, of example_short_address init_data] by simp
qed

text \<open>
  C3. When some advertised service identifier has the advertisement UUID as a substring,
  the manufacturer is "Philips Sonicare", the type is that of the model HX992X, whose mode
  table is the diamond clean one, and the title (and the name) is that type, a space, and
  the short form of the address, a function of the address alone.
\<close>

theorem start_update_identity:
  assumes "\<exists>u \<in> set (service_uuids service_info). sublist SONICARE_ADVERTISMENT_UUID u"
  shows "dev_manufacturer (start_update short_address service_info self) = Some ''Philips Sonicare''
       \<and> dev_type (start_update short_address service_info self) = Some (device_type (DEVICE_TYPES HX992X))
       \<and> device_type (DEVICE_TYPES HX992X) = ''HX992X''
       \<and> modes (DEVICE_TYPES HX992X) = DIAMOND_CLEAN_MODES
       \<and> title (start_update short_address service_info self)
           = Some (''HX992X'' @ '' '' @ short_address (address service_info))
       \<and> dev_name (start_update short_address service_info self)
           = Some (''HX992X'' @ '' '' @ short_address (address service_info))"
  using assms
  by (simp add: start_update_def scan_uuids_eq set_device_manufacturer_def set_device_type_def
      set_device_name_def set_title_def Let_def)

text \<open>
  The witness of C3: an advertisement with the UUID among its service identifiers.
\<close>

theorem start_update_identity_witness:
  "(\<exists>u \<in> set (service_uuids sonicare_advertisement). sublist SONICARE_ADVERTISMENT_UUID u)
   \<and> dev_manufacturer (start_update example_short_address sonicare_advertisement init_data)
       = Some ''Philips Sonicare''
   \<and> dev_type (start_update example_short_address sonicare_advertisement init_data)
       = Some ''HX992X''
   \<and> title (start_update example_short_address sonicare_advertisement init_data)
       = Some ''HX992X EEFF''"
proof -
  have h: "\<exists>u \<in> set (service_uuids sonicare_advertisement).
      sublist SONICARE_ADVERTISMENT_UUID u"
    by (simp add: sonicare_advertisement_def SONICARE_ADVERTISMENT_UUID_def)
  have a: "example_short_address (address sonicare_advertisement) = ''EEFF''"
    by (simp add: example_short_address_def sonicare_advertisement_def)
  show ?thesis
    using h a start_update_identity [OF h, of example_short_address init_data] by simp
qed

section \<open>The characteristic decoder\<close>



text \<open>
  C4, as the specification states it, fails: a poll whose state payload is the byte 2
  ends with the brushing flag false.
\<close>

theorem state_run_flag_counterexample:
  "example_client CHARACTERISTIC_STATE = Some [2]
   \<and> fst (async_poll example_localtime example_client init_data)
       = Inl (AttributeError ''from_byte'')
   \<and> brushing (snd (async_poll example_localtime example_client init_data)) = False"
  unfolding example_poll by (simp add: example_client_simps init_data_def)

text \<open>
  C4, amended. A state payload whose first byte is 2 resolves to the label "run", which
  the toothbrush state sensor holds when the poll gets as far as the conversion of the
  brush head usage; the poll leaves the brushing flag and the time of the last brushing
  as they were.
\<close>

theorem state_run_label:
  assumes "client CHARACTERISTIC_STATE = Some (2 # rest)"
  shows "resolve_state (2 # rest) = Inr ''run''
       \<and> (fst (async_poll lt client self) = Inl (AttributeError ''from_byte'')
          \<longrightarrow> sensors (snd (async_poll lt client self)) ''toothbrush_state''
              = Some \<lparr>native_unit_of_measurement = None, sensor_native_value = StrValue ''run'',
                      sensor_device_class = None, sensor_name = ''Toothbrush State''\<rparr>)
       \<and> brushing (snd (async_poll lt client self)) = brushing self
       \<and> last_brush (snd (async_poll lt client self)) = last_brush self"
proof -
  have l: "resolve_state (2 # rest) = Inr ''run''"
    by (simp add: resolve_state_def bind_err_def first_byte_def STATES_def)
  show ?thesis
    using l assms async_poll_state_label [of lt client self "''from_byte''" "2 # rest"]
      async_poll_keeps [of lt client self]
    by auto
qed

text \<open>
  The witness of C4, amended: the example device, whose state payload is the byte 2.
\<close>

theorem state_run_label_witness:
  "example_client CHARACTERISTIC_STATE = Some [2]
   \<and> resolve_state [2] = Inr ''run''
   \<and> sensors (snd (async_poll example_localtime example_client init_data)) ''toothbrush_state''
       = Some \<lparr>native_unit_of_measurement = None, sensor_native_value = StrValue ''run'',
               sensor_device_class = None, sensor_name = ''Toothbrush State''\<rparr>
   \<and> brushing (snd (async_poll example_localtime example_client init_data)) = brushing init_data
   \<and> last_brush (snd (async_poll example_localtime example_client init_data))
       = last_brush init_data"
proof -
  have h: "example_client CHARACTERISTIC_STATE = Some [2]"
    by (simp add: example_client_simps)
  have e: "fst (async_poll example_localtime example_client init_data)
           = Inl (AttributeError ''from_byte'')"
    by (simp add: example_poll)
  show ?thesis
    using h e state_run_label [where client = example_client and rest = "[]"
        and lt = example_localtime and self = init_data]
    by simp
qed

text \<open>
  C7, as the specification states it, fails: with the current time characteristic absent
  and the state payload empty, the error is the index error of reading the state byte,
  raised before the absent characteristic is read.
\<close>

theorem async_poll_index_error_counterexample:
  "no_time_client CHARACTERISTIC_CURRENT_TIME = None
   \<and> async_poll example_localtime no_time_client init_data = (Inl IndexError, init_data)"
  by (simp add: no_time_client_def empty_state_client_def example_client_def uuid_defs
      async_poll_def read_all_def bind_err_def read_gatt_char_def resolve_state_def first_byte_def)

text \<open>
  C7, amended. When a required characteristic is absent, the poll fails, returns no
  snapshot and leaves the object as it was. The error names the first absent
  characteristic in the order of the reads, except that it is the index error when that
  characteristic is the current time and the state payload is empty.
\<close>

theorem async_poll_missing_payload:
  assumes "\<exists>u \<in> set REQUIRED. client u = None"
  shows "\<exists>u. find (\<lambda>u. client u = None) REQUIRED = Some u
           \<and> async_poll lt client self
               = (Inl (if u = CHARACTERISTIC_CURRENT_TIME \<and> client CHARACTERISTIC_STATE = Some []
                       then IndexError else CharacteristicNotFound u), self)"
  using assms
  by (auto simp: REQUIRED_def async_poll_def read_all_def bind_err_def read_gatt_char_def
      resolve_state_def first_byte_def uuid_distinct split: option.splits list.splits)

text \<open>
  The witness of C7, amended: the example device without its battery characteristic.
\<close>

theorem async_poll_missing_payload_witness:
  "(\<exists>u \<in> set REQUIRED. no_battery_client u = None)
   \<and> find (\<lambda>u. no_battery_client u = None) REQUIRED = Some CHARACTERISTIC_BATTERY
   \<and> async_poll example_localtime no_battery_client init_data
       = (Inl (CharacteristicNotFound CHARACTERISTIC_BATTERY), init_data)"
proof -
  have f: "find (\<lambda>u. no_battery_client u = None) REQUIRED = Some CHARACTERISTIC_BATTERY"
    by (simp add: REQUIRED_def no_battery_client_def example_client_def uuid_defs)
  have h: "\<exists>u \<in> set REQUIRED. no_battery_client u = None"
    by (simp add: REQUIRED_def no_battery_client_def)
  have d: "CHARACTERISTIC_BATTERY \<noteq> CHARACTERISTIC_CURRENT_TIME"
    by (simp add: uuid_defs)
  show ?thesis
    using h f d async_poll_missing_payload [OF h, of example_localtime init_data] by simp
qed

text \<open>
  C5, as stated, fails: with all eight payloads supplied and the state payload empty, the
  error is raised inside the reads, before any sensor is updated.
\<close>

theorem async_poll_empty_state_counterexample:
  "map empty_state_client REQUIRED
     = [Some [16, 14], Some [64, 56], Some [120], Some [1], Some [87], Some [120, 0], Some [],
        Some [0, 0, 0, 0]]
   \<and> async_poll example_localtime empty_state_client init_data = (Inl IndexError, init_data)"
  by (simp add: REQUIRED_def empty_state_client_def example_client_def uuid_defs async_poll_def
      read_all_def bind_err_def read_gatt_char_def resolve_state_def first_byte_def)

text \<open>
  C5, amended. No poll returns a snapshot: every one ends in an error. When the eight
  payloads are supplied, the state and battery payloads are not empty and the time stamp
  can be formatted, the error is the AttributeError of \<^verbatim>\<open>int.from_byte\<close>, raised after
  the brushing time, battery, toothbrush state, current time and brush head lifetime
  sensors have been updated and before any other is.
\<close>

theorem async_poll_never_returns:
  "(\<exists>e. fst (async_poll lt client self) = Inl e)
   \<and> (client CHARACTERISTIC_BRUSH_USAGE = Some usage
      \<and> client CHARACTERISTIC_BRUSH_LIFETIME = Some lifetime
      \<and> client CHARACTERISTIC_MODE = Some mode
      \<and> client CHARACTERISTIC_STRENGTH = Some strength
      \<and> client CHARACTERISTIC_BATTERY = Some (b # bs)
      \<and> client CHARACTERISTIC_BRUSHING_TIME = Some brushing_time
      \<and> client CHARACTERISTIC_STATE = Some (s # ss)
      \<and> resolve_state (s # ss) = Inr label
      \<and> client CHARACTERISTIC_CURRENT_TIME = Some current_time
      \<and> lt (from_bytes_little current_time) = Some stamp
      \<longrightarrow> async_poll lt client self
          = (Inl (AttributeError ''from_byte''),
             self\<lparr>sensors := (sensors self)
               (''brushing_time'' \<mapsto>
                  \<lparr>native_unit_of_measurement = None,
                   sensor_native_value = IntValue (from_bytes_little brushing_time),
                   sensor_device_class = None, sensor_name = ''Brushing time''\<rparr>,
                ''battery_percent'' \<mapsto>
                  \<lparr>native_unit_of_measurement = Some ''%'',
                   sensor_native_value = IntValue (uint b),
                   sensor_device_class = Some ''battery'', sensor_name = ''Battery''\<rparr>,
                ''toothbrush_state'' \<mapsto>
                  \<lparr>native_unit_of_measurement = None, sensor_native_value = StrValue label,
                   sensor_device_class = None, sensor_name = ''Toothbrush State''\<rparr>,
                ''current_time'' \<mapsto>
                  \<lparr>native_unit_of_measurement = None, sensor_native_value = StrValue stamp,
                   sensor_device_class = None, sensor_name = ''Toothbrush current time''\<rparr>,
                ''brush_head_lifetime'' \<mapsto>
                  \<lparr>native_unit_of_measurement = None,
                   sensor_native_value = IntValue (from_bytes_little lifetime),
                   sensor_device_class = None,
                   sensor_name = ''Toothbrush head total lifetime''\<rparr>)\<rparr>))"
proof (intro conjI impI)
  show "\<exists>e. fst (async_poll lt client self) = Inl e"
    by (rule async_poll_fails)
next
  assume a: "client CHARACTERISTIC_BRUSH_USAGE = Some usage
      \<and> client CHARACTERISTIC_BRUSH_LIFETIME = Some lifetime
      \<and> client CHARACTERISTIC_MODE = Some mode
      \<and> client CHARACTERISTIC_STRENGTH = Some strength
      \<and> client CHARACTERISTIC_BATTERY = Some (b # bs)
      \<and> client CHARACTERISTIC_BRUSHING_TIME = Some brushing_time
      \<and> client CHARACTERISTIC_STATE = Some (s # ss)
      \<and> resolve_state (s # ss) = Inr label
      \<and> client CHARACTERISTIC_CURRENT_TIME = Some current_time
      \<and> lt (from_bytes_little current_time) = Some stamp"
  then have r: "read_all lt client =
      Inr \<lparr>brush_usage_payload = usage, brush_lifetime_payload = lifetime,
           mode_payload = mode, strength_payload = strength,
           battery_payload = b # bs, brushing_time_payload = brushing_time,
           state_payload = s # ss, tb_state = label, current_time_stamp = stamp\<rparr>"
    by (simp add: read_all_def bind_err_def read_gatt_char_def)
  show "async_poll lt client self
          = (Inl (AttributeError ''from_byte''),
             self\<lparr>sensors := (sensors self)
               (''brushing_time'' \<mapsto>
                  \<lparr>native_unit_of_measurement = None,
                   sensor_native_value = IntValue (from_bytes_little brushing_time),
                   sensor_device_class = None, sensor_name = ''Brushing time''\<rparr>,
                ''battery_percent'' \<mapsto>
                  \<lparr>native_unit_of_measurement = Some ''%'',
                   sensor_native_value = IntValue (uint b),
                   sensor_device_class = Some ''battery'', sensor_name = ''Battery''\<rparr>,
                ''toothbrush_state'' \<mapsto>
                  \<lparr>native_unit_of_measurement = None, sensor_native_value = StrValue label,
                   sensor_device_class = None, sensor_name = ''Toothbrush State''\<rparr>,
                ''current_time'' \<mapsto>
                  \<lparr>native_unit_of_measurement = None, sensor_native_value = StrValue stamp,
                   sensor_device_class = None, sensor_name = ''Toothbrush current time''\<rparr>,
                ''brush_head_lifetime'' \<mapsto>
                  \<lparr>native_unit_of_measurement = None,
                   sensor_native_value = IntValue (from_bytes_little lifetime),
                   sensor_device_class = None,
                   sensor_name = ''Toothbrush head total lifetime''\<rparr>)\<rparr>)"
    by (simp add: async_poll_def r update_sensors_def update_usage_def from_byte_def
        first_byte_def update_sensor_def Let_def)
qed

text \<open>
  The witness of C5, amended: the poll of the example device.
\<close>

theorem async_poll_never_returns_witness:
  "example_client CHARACTERISTIC_BATTERY = Some [87]
   \<and> example_client CHARACTERISTIC_STATE = Some [2]
   \<and> resolve_state [2] = Inr ''run''
   \<and> example_localtime (from_bytes_little [0, 0, 0, 0]) = Some ''1970-01-01 00:00:00''
   \<and> fst (async_poll example_localtime example_client init_data)
       = Inl (AttributeError ''from_byte'')
   \<and> sensors (snd (async_poll example_localtime example_client init_data)) ''battery_percent''
       = Some \<lparr>native_unit_of_measurement = Some ''%'', sensor_native_value = IntValue 87,
               sensor_device_class = Some ''battery'', sensor_name = ''Battery''\<rparr>
   \<and> sensors (snd (async_poll example_localtime example_client init_data)) ''brush_head_usage''
       = None"
proof -
  have l: "resolve_state [2] = Inr ''run''"
    by (simp add: resolve_state_def bind_err_def first_byte_def STATES_def)
  have t: "example_localtime (from_bytes_little [0, 0, 0, 0]) = Some ''1970-01-01 00:00:00''"
    by (simp add: example_localtime_def)
  have i: "sensors init_data = Map.empty"
    by (simp add: init_data_def)
  show ?thesis
    using l t i example_client_simps
      async_poll_never_returns [where client = example_client and lt = example_localtime
        and self = init_data and usage = "[16, 14]" and lifetime = "[64, 56]"
        and mode = "[120]" and strength = "[1]" and b = 87 and bs = "[]"
        and brushing_time = "[120, 0]" and s = 2 and ss = "[]" and label = "''run''"
        and current_time = "[0, 0, 0, 0]" and stamp = "''1970-01-01 00:00:00''"]
    by simp
qed

text \<open>
  C6. The decode sets neither the mode sensor nor the strength sensor: whatever the
  payloads, both are after the decode what they were before it. So on the example device,
  whose mode code 120 is "clean" in the table of its model and whose strength code 1 is
  "medium" in the strength table, the decode ends in the AttributeError of
  \<^verbatim>\<open>int.from_byte\<close> with no mode and no strength value.
\<close>

theorem mode_strength_never_decoded:
  "sensors (snd (async_poll lt client self)) ''mode'' = sensors self ''mode''
   \<and> sensors (snd (async_poll lt client self)) ''brush_strength''
       = sensors self ''brush_strength''
   \<and> example_client CHARACTERISTIC_MODE = Some [120]
   \<and> example_client CHARACTERISTIC_STRENGTH = Some [1]
   \<and> modes (DEVICE_TYPES HX992X) 120 = Some ''clean'' \<and> STRENGTH 1 = Some ''medium''
   \<and> fst (async_poll example_localtime example_client init_data)
       = Inl (AttributeError ''from_byte'')
   \<and> sensors (snd (async_poll example_localtime example_client init_data)) ''mode'' = None
   \<and> sensors (snd (async_poll example_localtime example_client init_data)) ''brush_strength''
       = None"
proof -
  have k: "sensors (snd (async_poll lt client self)) ''mode'' = sensors self ''mode''
     \<and> sensors (snd (async_poll lt client self)) ''brush_strength''
         = sensors self ''brush_strength''"
    by (simp add: async_poll_other_keys)
  have p: "fst (async_poll example_localtime example_client init_data)
       = Inl (AttributeError ''from_byte'')
     \<and> sensors (snd (async_poll example_localtime example_client init_data)) ''mode'' = None
     \<and> sensors (snd (async_poll example_localtime example_client init_data)) ''brush_strength''
       = None"
    unfolding example_poll by (simp add: init_data_def)
  show ?thesis
    using k p
    by (simp add: example_client_simps DIAMOND_CLEAN_MODES_def EXPERT_CLEAN_MODES_def
        STRENGTH_def)
qed

end
